theory Spec2Isabelle
  imports Main "HOL-Library.Word"
begin

section \<open>The slider binding of the XMILE parser\<close>

text \<open>
  The source file \<^verbatim>\<open>bindings/xmile_slider.py\<close> declares one class,
  \<^verbatim>\<open>XmileSlider\<close>, through \<^verbatim>\<open>@dataclasses.dataclass(kw_only=True)\<close>:
  thirty-one fields, each declared by \<^verbatim>\<open>dataclasses.field(default=None, metadata={...})\<close>,
  and a nested class \<^verbatim>\<open>Meta\<close>. The decorator generates \<^verbatim>\<open>__init__\<close> and
  \<^verbatim>\<open>__eq__\<close>; nothing else is executable. The model has three layers:
  the Python values a field can hold, the static declaration of each field (annotation,
  default, metadata dictionary), and the instance with the generated operations.
  Writing an instance as XML text and parsing it back is the work of the binding
  library that reads these declarations; the lexical forms it uses are not part of
  the file and are not modelled.
\<close>

subsection \<open>Python values\<close>

text \<open>
  Python does not enforce annotations, so a field holds any value. A float is
  an IEEE-754 double, kept as its 64-bit pattern. An instance of another class
  (the sibling classes \<^verbatim>\<open>XmileFormat\<close>, \<^verbatim>\<open>XmileEntity\<close> and \<^verbatim>\<open>XmileResetTo\<close> are
  declared in modules of their own) is its class name with its attribute dictionary.
\<close>

datatype pyval =
    PyNone
  | PyBool bool
  | PyInt int
  | PyFloat "64 word"
  | PyStr string
  | PyObj pyobject
and pyobject =
    Instance string "(string \<times> pyval) list"

subsection \<open>Field declarations\<close>

text \<open>The fields, in the order of their declaration (lines 35 to 225).\<close>

datatype slider_field =
    F_show_name
  | F_conditional_entity
  | F_increment
  | F_width
  | F_label_side
  | F_y
  | F_wrap_title
  | F_always_show_hover_tip
  | F_input_expands
  | F_title
  | F_x
  | F_uid
  | F_show_hover_tip
  | F_vertical
  | F_fancy_appearance
  | F_height
  | F_max
  | F_color
  | F_font_weight
  | F_font_color
  | F_background
  | F_font_family
  | F_font_size
  | F_num_ticks
  | F_input_width
  | F_navigate_to
  | F_min
  | F_z_index
  | F_format
  | F_entity
  | F_reset_to

text \<open>Type annotations as written in the source: \<^verbatim>\<open>Optional[Union[int, float]]\<close> and so on.\<close>

datatype annotation =
    T_bool
  | T_int
  | T_float
  | T_str
  | T_class string
  | Union "annotation list"
  | Optional annotation

text \<open>
  The module \<^verbatim>\<open>xmile_globals\<close> is imported by the file and declared elsewhere; the
  two constants read from it are parameters of the model.
\<close>

record xmile_globals =
  XMILE_NAMESPACE :: string
  ISEE_NAMESPACE :: string

text \<open>The module constant \<^verbatim>\<open>__NAMESPACE__\<close> of line 25.\<close>

definition NAMESPACE :: string where
  "NAMESPACE = ''http://docs.oasis-open.org/xmile/ns/XMILE/v1.0''"

text \<open>
  What one declaration records: the field's name and annotation, and the two arguments
  of \<^verbatim>\<open>dataclasses.field\<close>. The metadata is the dictionary literal of the source, kept
  as an association list and read in the module's environment, since five of the
  literals mention \<^verbatim>\<open>xmile_globals.ISEE_NAMESPACE\<close>.
\<close>

record Field =
  field_name :: string
  field_type :: annotation
  field_default :: pyval
  field_metadata :: "xmile_globals \<Rightarrow> (string \<times> string) list"

fun field_decl :: "slider_field \<Rightarrow> Field" where
  "field_decl F_show_name = \<lparr>field_name = ''show_name'', field_type = Optional T_bool,
     field_default = PyNone, field_metadata = (\<lambda>g. [(''type'', ''Attribute'')])\<rparr>"
| "field_decl F_conditional_entity = \<lparr>field_name = ''conditional_entity'', field_type = Optional T_str,
     field_default = PyNone, field_metadata = (\<lambda>g. [(''type'', ''Attribute''), (''namespace'', ISEE_NAMESPACE g)])\<rparr>"
| "field_decl F_increment = \<lparr>field_name = ''increment'', field_type = Optional (Union [T_int, T_float]),
     field_default = PyNone, field_metadata = (\<lambda>g. [(''type'', ''Attribute'')])\<rparr>"
| "field_decl F_width = \<lparr>field_name = ''width'', field_type = Optional (Union [T_int, T_float]),
     field_default = PyNone, field_metadata = (\<lambda>g. [(''type'', ''Attribute'')])\<rparr>"
| "field_decl F_label_side = \<lparr>field_name = ''label_side'', field_type = Optional T_str,
     field_default = PyNone, field_metadata = (\<lambda>g. [(''type'', ''Attribute'')])\<rparr>"
| "field_decl F_y = \<lparr>field_name = ''y'', field_type = Optional (Union [T_float, T_int]),
     field_default = PyNone, field_metadata = (\<lambda>g. [(''type'', ''Attribute'')])\<rparr>"
| "field_decl F_wrap_title = \<lparr>field_name = ''wrap_title'', field_type = Optional T_bool,
     field_default = PyNone, field_metadata = (\<lambda>g. [(''type'', ''Attribute'')])\<rparr>"
| "field_decl F_always_show_hover_tip = \<lparr>field_name = ''always_show_hover_tip'', field_type = Optional T_bool,
     field_default = PyNone, field_metadata = (\<lambda>g. [(''type'', ''Attribute''), (''namespace'', ISEE_NAMESPACE g)])\<rparr>"
| "field_decl F_input_expands = \<lparr>field_name = ''input_expands'', field_type = Optional T_bool,
     field_default = PyNone, field_metadata = (\<lambda>g. [(''type'', ''Attribute'')])\<rparr>"
| "field_decl F_title = \<lparr>field_name = ''title'', field_type = Optional T_str,
     field_default = PyNone, field_metadata = (\<lambda>g. [(''type'', ''Attribute'')])\<rparr>"
| "field_decl F_x = \<lparr>field_name = ''x'', field_type = Optional (Union [T_float, T_int]),
     field_default = PyNone, field_metadata = (\<lambda>g. [(''type'', ''Attribute'')])\<rparr>"
| "field_decl F_uid = \<lparr>field_name = ''uid'', field_type = Optional T_int,
     field_default = PyNone, field_metadata = (\<lambda>g. [(''type'', ''Attribute'')])\<rparr>"
| "field_decl F_show_hover_tip = \<lparr>field_name = ''show_hover_tip'', field_type = Optional T_str,
     field_default = PyNone, field_metadata = (\<lambda>g. [(''type'', ''Attribute''), (''namespace'', ISEE_NAMESPACE g)])\<rparr>"
| "field_decl F_vertical = \<lparr>field_name = ''vertical'', field_type = Optional T_bool,
     field_default = PyNone, field_metadata = (\<lambda>g. [(''type'', ''Attribute'')])\<rparr>"
| "field_decl F_fancy_appearance = \<lparr>field_name = ''fancy_appearance'', field_type = Optional T_bool,
     field_default = PyNone, field_metadata = (\<lambda>g. [(''type'', ''Attribute''), (''namespace'', ISEE_NAMESPACE g)])\<rparr>"
| "field_decl F_height = \<lparr>field_name = ''height'', field_type = Optional (Union [T_int, T_float]),
     field_default = PyNone, field_metadata = (\<lambda>g. [(''type'', ''Attribute'')])\<rparr>"
| "field_decl F_max = \<lparr>field_name = ''max'', field_type = Optional (Union [T_int, T_float]),
     field_default = PyNone, field_metadata = (\<lambda>g. [(''type'', ''Attribute'')])\<rparr>"
| "field_decl F_color = \<lparr>field_name = ''color'', field_type = Optional T_str,
     field_default = PyNone, field_metadata = (\<lambda>g. [(''type'', ''Attribute'')])\<rparr>"
| "field_decl F_font_weight = \<lparr>field_name = ''font_weight'', field_type = Optional T_str,
     field_default = PyNone, field_metadata = (\<lambda>g. [(''type'', ''Attribute'')])\<rparr>"
| "field_decl F_font_color = \<lparr>field_name = ''font_color'', field_type = Optional T_str,
     field_default = PyNone, field_metadata = (\<lambda>g. [(''type'', ''Attribute'')])\<rparr>"
| "field_decl F_background = \<lparr>field_name = ''background'', field_type = Optional T_str,
     field_default = PyNone, field_metadata = (\<lambda>g. [(''type'', ''Attribute'')])\<rparr>"
| "field_decl F_font_family = \<lparr>field_name = ''font_family'', field_type = Optional T_str,
     field_default = PyNone, field_metadata = (\<lambda>g. [(''type'', ''Attribute'')])\<rparr>"
| "field_decl F_font_size = \<lparr>field_name = ''font_size'', field_type = Optional T_str,
     field_default = PyNone, field_metadata = (\<lambda>g. [(''type'', ''Attribute'')])\<rparr>"
| "field_decl F_num_ticks = \<lparr>field_name = ''num_ticks'', field_type = Optional T_int,
     field_default = PyNone, field_metadata = (\<lambda>g. [(''type'', ''Attribute'')])\<rparr>"
| "field_decl F_input_width = \<lparr>field_name = ''input_width'', field_type = Optional T_int,
     field_default = PyNone, field_metadata = (\<lambda>g. [(''type'', ''Attribute'')])\<rparr>"
| "field_decl F_navigate_to = \<lparr>field_name = ''navigate_to'', field_type = Optional T_bool,
     field_default = PyNone, field_metadata = (\<lambda>g. [(''type'', ''Attribute''), (''namespace'', ISEE_NAMESPACE g)])\<rparr>"
| "field_decl F_min = \<lparr>field_name = ''min'', field_type = Optional (Union [T_int, T_float]),
     field_default = PyNone, field_metadata = (\<lambda>g. [(''type'', ''Attribute'')])\<rparr>"
| "field_decl F_z_index = \<lparr>field_name = ''z_index'', field_type = Optional T_int,
     field_default = PyNone, field_metadata = (\<lambda>g. [(''type'', ''Attribute'')])\<rparr>"
| "field_decl F_format = \<lparr>field_name = ''format'', field_type = Optional (T_class ''xmile_format.XmileFormat''),
     field_default = PyNone, field_metadata = (\<lambda>g. [(''type'', ''Element'')])\<rparr>"
| "field_decl F_entity = \<lparr>field_name = ''entity'', field_type = Optional (T_class ''xmile_entity.XmileEntity''),
     field_default = PyNone, field_metadata = (\<lambda>g. [(''type'', ''Element'')])\<rparr>"
| "field_decl F_reset_to = \<lparr>field_name = ''reset_to'', field_type = Optional (T_class ''xmile_reset_to.XmileResetTo''),
     field_default = PyNone, field_metadata = (\<lambda>g. [(''type'', ''Element'')])\<rparr>"

text \<open>All fields in declaration order, as \<^verbatim>\<open>dataclasses.fields(XmileSlider)\<close> lists them.\<close>

definition dataclass_fields :: "slider_field list" where
  "dataclass_fields = [F_show_name, F_conditional_entity, F_increment, F_width,
     F_label_side, F_y, F_wrap_title, F_always_show_hover_tip,
     F_input_expands, F_title, F_x, F_uid,
     F_show_hover_tip, F_vertical, F_fancy_appearance, F_height,
     F_max, F_color, F_font_weight, F_font_color,
     F_background, F_font_family, F_font_size, F_num_ticks,
     F_input_width, F_navigate_to, F_min, F_z_index,
     F_format, F_entity, F_reset_to]"

text \<open>The two metadata keys the declarations use, read as \<^verbatim>\<open>metadata.get(key)\<close>.\<close>

definition xml_role :: "xmile_globals \<Rightarrow> slider_field \<Rightarrow> string option" where
  "xml_role g f = map_of (field_metadata (field_decl f) g) ''type''"

definition xml_namespace :: "xmile_globals \<Rightarrow> slider_field \<Rightarrow> string option" where
  "xml_namespace g f = map_of (field_metadata (field_decl f) g) ''namespace''"

text \<open>
  The kinds of field the data model of the specification distinguishes, read off the
  annotation: a boolean flag, a numeric (integer or floating point, the union in either
  order), an integer, a string, or a nested record of another class. The first four are
  the scalar kinds.
\<close>

datatype field_kind = Boolean | Numeric | Integer | String | Nested_record

definition annotation_kind :: "annotation \<Rightarrow> field_kind option" where
  "annotation_kind a =
     (if a = Optional T_bool then Some Boolean
      else if a = Optional (Union [T_int, T_float]) \<or> a = Optional (Union [T_float, T_int])
        then Some Numeric
      else if a = Optional T_int then Some Integer
      else if a = Optional T_str then Some String
      else (case a of Optional (T_class c) \<Rightarrow> Some Nested_record | _ \<Rightarrow> None))"

definition kind_of :: "slider_field \<Rightarrow> field_kind option" where
  "kind_of f = annotation_kind (field_type (field_decl f))"

definition is_scalar :: "slider_field \<Rightarrow> bool" where
  "is_scalar f = (kind_of f = Some Boolean \<or> kind_of f = Some Numeric \<or>
                  kind_of f = Some Integer \<or> kind_of f = Some String)"

text \<open>The enumeration of the scalar fields in section 3 of the specification, as written there.\<close>

definition spec_boolean_fields :: "slider_field list" where
  "spec_boolean_fields = [F_show_name, F_wrap_title, F_always_show_hover_tip, F_input_expands,
     F_vertical, F_fancy_appearance, F_navigate_to]"

definition spec_numeric_fields :: "slider_field list" where
  "spec_numeric_fields = [F_increment, F_width, F_y, F_height, F_max, F_min, F_x]"

definition spec_integer_fields :: "slider_field list" where
  "spec_integer_fields = [F_uid, F_num_ticks, F_input_width, F_z_index]"

definition spec_string_fields :: "slider_field list" where
  "spec_string_fields = [F_label_side, F_title, F_show_hover_tip, F_color, F_font_weight,
     F_font_color, F_background, F_font_family, F_font_size]"

definition spec_scalar_fields :: "slider_field list" where
  "spec_scalar_fields =
     spec_boolean_fields @ spec_numeric_fields @ spec_integer_fields @ spec_string_fields"

subsection \<open>Instances\<close>

text \<open>
  An instance holds one value per declared field. The fields \<^verbatim>\<open>max\<close> and \<^verbatim>\<open>min\<close>
  are primed, the unprimed names being taken by the order operations.
\<close>

record XmileSlider =
  show_name :: pyval
  conditional_entity :: pyval
  increment :: pyval
  width :: pyval
  label_side :: pyval
  y :: pyval
  wrap_title :: pyval
  always_show_hover_tip :: pyval
  input_expands :: pyval
  title :: pyval
  x :: pyval
  uid :: pyval
  show_hover_tip :: pyval
  vertical :: pyval
  fancy_appearance :: pyval
  height :: pyval
  max' :: pyval
  color :: pyval
  font_weight :: pyval
  font_color :: pyval
  background :: pyval
  font_family :: pyval
  font_size :: pyval
  num_ticks :: pyval
  input_width :: pyval
  navigate_to :: pyval
  min' :: pyval
  z_index :: pyval
  format :: pyval
  entity :: pyval
  reset_to :: pyval

text \<open>Reading a field, \<^verbatim>\<open>s.f\<close>.\<close>

fun getattr :: "XmileSlider \<Rightarrow> slider_field \<Rightarrow> pyval" where
  "getattr s F_show_name = show_name s"
| "getattr s F_conditional_entity = conditional_entity s"
| "getattr s F_increment = increment s"
| "getattr s F_width = width s"
| "getattr s F_label_side = label_side s"
| "getattr s F_y = y s"
| "getattr s F_wrap_title = wrap_title s"
| "getattr s F_always_show_hover_tip = always_show_hover_tip s"
| "getattr s F_input_expands = input_expands s"
| "getattr s F_title = title s"
| "getattr s F_x = x s"
| "getattr s F_uid = uid s"
| "getattr s F_show_hover_tip = show_hover_tip s"
| "getattr s F_vertical = vertical s"
| "getattr s F_fancy_appearance = fancy_appearance s"
| "getattr s F_height = height s"
| "getattr s F_max = max' s"
| "getattr s F_color = color s"
| "getattr s F_font_weight = font_weight s"
| "getattr s F_font_color = font_color s"
| "getattr s F_background = background s"
| "getattr s F_font_family = font_family s"
| "getattr s F_font_size = font_size s"
| "getattr s F_num_ticks = num_ticks s"
| "getattr s F_input_width = input_width s"
| "getattr s F_navigate_to = navigate_to s"
| "getattr s F_min = min' s"
| "getattr s F_z_index = z_index s"
| "getattr s F_format = format s"
| "getattr s F_entity = entity s"
| "getattr s F_reset_to = reset_to s"

text \<open>
  Assigning a field, \<^verbatim>\<open>s.f = v\<close>. The class is neither frozen nor slotted and
  defines no \<^verbatim>\<open>__setattr__\<close> or \<^verbatim>\<open>__post_init__\<close>: the value is stored as it is given.
\<close>

fun setattr :: "XmileSlider \<Rightarrow> slider_field \<Rightarrow> pyval \<Rightarrow> XmileSlider" where
  "setattr s F_show_name v = s\<lparr>show_name := v\<rparr>"
| "setattr s F_conditional_entity v = s\<lparr>conditional_entity := v\<rparr>"
| "setattr s F_increment v = s\<lparr>increment := v\<rparr>"
| "setattr s F_width v = s\<lparr>width := v\<rparr>"
| "setattr s F_label_side v = s\<lparr>label_side := v\<rparr>"
| "setattr s F_y v = s\<lparr>y := v\<rparr>"
| "setattr s F_wrap_title v = s\<lparr>wrap_title := v\<rparr>"
| "setattr s F_always_show_hover_tip v = s\<lparr>always_show_hover_tip := v\<rparr>"
| "setattr s F_input_expands v = s\<lparr>input_expands := v\<rparr>"
| "setattr s F_title v = s\<lparr>title := v\<rparr>"
| "setattr s F_x v = s\<lparr>x := v\<rparr>"
| "setattr s F_uid v = s\<lparr>uid := v\<rparr>"
| "setattr s F_show_hover_tip v = s\<lparr>show_hover_tip := v\<rparr>"
| "setattr s F_vertical v = s\<lparr>vertical := v\<rparr>"
| "setattr s F_fancy_appearance v = s\<lparr>fancy_appearance := v\<rparr>"
| "setattr s F_height v = s\<lparr>height := v\<rparr>"
| "setattr s F_max v = s\<lparr>max' := v\<rparr>"
| "setattr s F_color v = s\<lparr>color := v\<rparr>"
| "setattr s F_font_weight v = s\<lparr>font_weight := v\<rparr>"
| "setattr s F_font_color v = s\<lparr>font_color := v\<rparr>"
| "setattr s F_background v = s\<lparr>background := v\<rparr>"
| "setattr s F_font_family v = s\<lparr>font_family := v\<rparr>"
| "setattr s F_font_size v = s\<lparr>font_size := v\<rparr>"
| "setattr s F_num_ticks v = s\<lparr>num_ticks := v\<rparr>"
| "setattr s F_input_width v = s\<lparr>input_width := v\<rparr>"
| "setattr s F_navigate_to v = s\<lparr>navigate_to := v\<rparr>"
| "setattr s F_min v = s\<lparr>min' := v\<rparr>"
| "setattr s F_z_index v = s\<lparr>z_index := v\<rparr>"
| "setattr s F_format v = s\<lparr>format := v\<rparr>"
| "setattr s F_entity v = s\<lparr>entity := v\<rparr>"
| "setattr s F_reset_to v = s\<lparr>reset_to := v\<rparr>"

subsection \<open>The generated constructor\<close>

text \<open>
  With \<^verbatim>\<open>kw_only=True\<close> and every default \<^verbatim>\<open>None\<close> the decorator generates
  \<^verbatim>\<open>def __init__(self, *, show_name=None, ..., reset_to=None)\<close> whose body assigns each
  parameter to the field of the same name. A call is given by its positional arguments
  and its keyword arguments. Python raises \<^verbatim>\<open>TypeError\<close> for any positional argument
  (all parameters are keyword-only), for a keyword given twice and for a keyword that is
  not a parameter.
\<close>

datatype exception = TypeError

definition init_params :: "string list" where
  "init_params = [''show_name'', ''conditional_entity'', ''increment'', ''width'', ''label_side'',
     ''y'', ''wrap_title'', ''always_show_hover_tip'', ''input_expands'', ''title'',
     ''x'', ''uid'', ''show_hover_tip'', ''vertical'', ''fancy_appearance'',
     ''height'', ''max'', ''color'', ''font_weight'', ''font_color'',
     ''background'', ''font_family'', ''font_size'', ''num_ticks'', ''input_width'',
     ''navigate_to'', ''min'', ''z_index'', ''format'', ''entity'',
     ''reset_to'']"

definition kwarg :: "(string \<times> pyval) list \<Rightarrow> string \<Rightarrow> pyval" where
  "kwarg kwargs p = (case map_of kwargs p of Some v \<Rightarrow> v | None \<Rightarrow> PyNone)"

definition XmileSlider_init :: "pyval list \<Rightarrow> (string \<times> pyval) list \<Rightarrow> exception + XmileSlider" where
  "XmileSlider_init args kwargs =
     (if args \<noteq> [] then Inl TypeError
      else if \<not> distinct (map fst kwargs) then Inl TypeError
      else if \<not> list_all (\<lambda>k. k \<in> set init_params) (map fst kwargs) then Inl TypeError
      else Inr \<lparr>
        show_name = kwarg kwargs ''show_name'',
        conditional_entity = kwarg kwargs ''conditional_entity'',
        increment = kwarg kwargs ''increment'',
        width = kwarg kwargs ''width'',
        label_side = kwarg kwargs ''label_side'',
        y = kwarg kwargs ''y'',
        wrap_title = kwarg kwargs ''wrap_title'',
        always_show_hover_tip = kwarg kwargs ''always_show_hover_tip'',
        input_expands = kwarg kwargs ''input_expands'',
        title = kwarg kwargs ''title'',
        x = kwarg kwargs ''x'',
        uid = kwarg kwargs ''uid'',
        show_hover_tip = kwarg kwargs ''show_hover_tip'',
        vertical = kwarg kwargs ''vertical'',
        fancy_appearance = kwarg kwargs ''fancy_appearance'',
        height = kwarg kwargs ''height'',
        max' = kwarg kwargs ''max'',
        color = kwarg kwargs ''color'',
        font_weight = kwarg kwargs ''font_weight'',
        font_color = kwarg kwargs ''font_color'',
        background = kwarg kwargs ''background'',
        font_family = kwarg kwargs ''font_family'',
        font_size = kwarg kwargs ''font_size'',
        num_ticks = kwarg kwargs ''num_ticks'',
        input_width = kwarg kwargs ''input_width'',
        navigate_to = kwarg kwargs ''navigate_to'',
        min' = kwarg kwargs ''min'',
        z_index = kwarg kwargs ''z_index'',
        format = kwarg kwargs ''format'',
        entity = kwarg kwargs ''entity'',
        reset_to = kwarg kwargs ''reset_to''\<rparr>)"

subsection \<open>The generated equality\<close>

text \<open>
  Python's \<^verbatim>\<open>==\<close> on the values a field holds. \<^verbatim>\<open>bool\<close> is a subclass of \<^verbatim>\<open>int\<close>,
  and an \<^verbatim>\<open>int\<close> and a \<^verbatim>\<open>float\<close> compare by their exact numeric values. A finite double
  has the value \<open>float_significand w * 2 ^ float_exponent w / 2 ^ 1075\<close>. A NaN equals
  nothing, itself included, and the two zeros are equal. The equality of two objects
  belongs to their classes and is the parameter \<open>obj_eq\<close>; an object and a value of a
  built-in type are unequal, as are values of unrelated built-in types.
\<close>

definition float_biased_exp :: "64 word \<Rightarrow> nat" where
  "float_biased_exp w = unat (take_bit 11 (drop_bit 52 w))"

definition float_fraction :: "64 word \<Rightarrow> nat" where
  "float_fraction w = unat (take_bit 52 w)"

definition float_is_nan :: "64 word \<Rightarrow> bool" where
  "float_is_nan w = (float_biased_exp w = 2047 \<and> float_fraction w \<noteq> 0)"

definition float_is_finite :: "64 word \<Rightarrow> bool" where
  "float_is_finite w = (float_biased_exp w \<noteq> 2047)"

definition float_significand :: "64 word \<Rightarrow> int" where
  "float_significand w =
     (let m = (if float_biased_exp w = 0 then int (float_fraction w)
               else 2 ^ 52 + int (float_fraction w))
      in if bit w 63 then - m else m)"

definition float_exponent :: "64 word \<Rightarrow> nat" where
  "float_exponent w = (if float_biased_exp w = 0 then 1 else float_biased_exp w)"

definition float_eq :: "64 word \<Rightarrow> 64 word \<Rightarrow> bool" where
  "float_eq a b =
     (\<not> float_is_nan a \<and> \<not> float_is_nan b \<and>
      (a = b \<or> (float_is_finite a \<and> float_is_finite b \<and>
                 float_significand a = 0 \<and> float_significand b = 0)))"

definition int_eq_float :: "int \<Rightarrow> 64 word \<Rightarrow> bool" where
  "int_eq_float i w =
     (float_is_finite w \<and> i * 2 ^ 1075 = float_significand w * 2 ^ float_exponent w)"

fun py_eq :: "(pyobject \<Rightarrow> pyobject \<Rightarrow> bool) \<Rightarrow> pyval \<Rightarrow> pyval \<Rightarrow> bool" where
  "py_eq obj_eq PyNone PyNone = True"
| "py_eq obj_eq (PyBool a) (PyBool b) = (a = b)"
| "py_eq obj_eq (PyBool a) (PyInt j) = (of_bool a = j)"
| "py_eq obj_eq (PyBool a) (PyFloat w) = int_eq_float (of_bool a) w"
| "py_eq obj_eq (PyInt i) (PyBool b) = (i = of_bool b)"
| "py_eq obj_eq (PyInt i) (PyInt j) = (i = j)"
| "py_eq obj_eq (PyInt i) (PyFloat w) = int_eq_float i w"
| "py_eq obj_eq (PyFloat v) (PyBool b) = int_eq_float (of_bool b) v"
| "py_eq obj_eq (PyFloat v) (PyInt j) = int_eq_float j v"
| "py_eq obj_eq (PyFloat v) (PyFloat w) = float_eq v w"
| "py_eq obj_eq (PyStr a) (PyStr b) = (a = b)"
| "py_eq obj_eq (PyObj a) (PyObj b) = obj_eq a b"
| "py_eq obj_eq _ _ = False"

text \<open>
  No field is declared with \<^verbatim>\<open>compare=False\<close>, so the generated \<^verbatim>\<open>__eq__\<close>
  returns \<^verbatim>\<open>(self.show_name, ..., self.reset_to) == (other.show_name, ..., other.reset_to)\<close>,
  the tuples of all thirty-one fields. Both arguments are instances of this class; for
  any other object the method returns \<^verbatim>\<open>NotImplemented\<close>.
\<close>

definition astuple :: "XmileSlider \<Rightarrow> pyval list" where
  "astuple s = [show_name s, conditional_entity s, increment s, width s, label_side s,
     y s, wrap_title s, always_show_hover_tip s, input_expands s, title s,
     x s, uid s, show_hover_tip s, vertical s, fancy_appearance s,
     height s, max' s, color s, font_weight s, font_color s,
     background s, font_family s, font_size s, num_ticks s, input_width s,
     navigate_to s, min' s, z_index s, format s, entity s,
     reset_to s]"

text \<open>
  The comparison of two tuples goes through the components in order and takes two
  components as equal when they are the same object, without asking \<^verbatim>\<open>==\<close>; only
  components that are different objects are compared by \<^verbatim>\<open>==\<close>. A value of the model
  has no identity, so the comparison is told which components are the same object: one
  flag per component.
\<close>

definition rich_compare_bool :: "(pyobject \<Rightarrow> pyobject \<Rightarrow> bool) \<Rightarrow> bool \<Rightarrow> pyval \<Rightarrow> pyval \<Rightarrow> bool" where
  "rich_compare_bool obj_eq identical a b = (identical \<or> py_eq obj_eq a b)"

fun tuple_eq :: "(pyobject \<Rightarrow> pyobject \<Rightarrow> bool) \<Rightarrow> bool list \<Rightarrow> pyval list \<Rightarrow> pyval list \<Rightarrow> bool" where
  "tuple_eq obj_eq (i # is) (a # as) (b # bs) =
     (rich_compare_bool obj_eq i a b \<and> tuple_eq obj_eq is as bs)"
| "tuple_eq obj_eq [] [] [] = True"
| "tuple_eq obj_eq _ _ _ = False"

text \<open>
  \<^verbatim>\<open>s == t\<close>, where \<open>same f\<close> says that the field \<open>f\<close> of \<open>s\<close> and the field \<open>f\<close> of \<open>t\<close>
  hold the same object. When an instance is compared with itself every field does.
\<close>

definition XmileSlider_eq ::
  "(pyobject \<Rightarrow> pyobject \<Rightarrow> bool) \<Rightarrow> (slider_field \<Rightarrow> bool) \<Rightarrow> XmileSlider \<Rightarrow> XmileSlider \<Rightarrow> bool" where
  "XmileSlider_eq obj_eq same s t =
     tuple_eq obj_eq (map same dataclass_fields) (astuple s) (astuple t)"

text \<open>A value that is a NaN: the one value that \<^verbatim>\<open>==\<close> does not relate to itself.\<close>

definition holds_nan :: "pyval \<Rightarrow> bool" where
  "holds_nan v = (case v of PyFloat w \<Rightarrow> float_is_nan w | _ \<Rightarrow> False)"

subsection \<open>The class-level XML description\<close>

text \<open>The nested class \<^verbatim>\<open>Meta\<close>: two class attributes, evaluated once when the class is created.\<close>

record Meta =
  name :: string
  namespace :: string

definition XmileSlider_Meta :: "xmile_globals \<Rightarrow> Meta" where
  "XmileSlider_Meta g = \<lparr>name = ''slider'', namespace = XMILE_NAMESPACE g\<rparr>"

text \<open>
  Modelled from the spec: the serializer that walks the class is not in the source file.
  Sections 3 and 6 of the specification fix which fields it emits: an unset field is
  absent from the XML, a set field of the Attribute role is an attribute on the opening
  tag under its namespace tag and declared name, and a set field of the Element role is
  a child tag. The values are carried as they are; their lexical forms are left to the
  serializer.
\<close>

definition xml_attributes :: "xmile_globals \<Rightarrow> XmileSlider \<Rightarrow> (string option \<times> string \<times> pyval) list" where
  "xml_attributes g s =
     map (\<lambda>f. (xml_namespace g f, field_name (field_decl f), getattr s f))
       (filter (\<lambda>f. xml_role g f = Some ''Attribute'' \<and> getattr s f \<noteq> PyNone) dataclass_fields)"

definition xml_children :: "xmile_globals \<Rightarrow> XmileSlider \<Rightarrow> (string \<times> pyval) list" where
  "xml_children g s =
     map (\<lambda>f. (field_name (field_decl f), getattr s f))
       (filter (\<lambda>f. xml_role g f = Some ''Element'' \<and> getattr s f \<noteq> PyNone) dataclass_fields)"

section \<open>Basic facts\<close>

subsection \<open>The declarations\<close>

lemma dataclass_fields_complete: "f \<in> set dataclass_fields"
  by (cases f) (simp_all add: dataclass_fields_def)

lemma dataclass_fields_distinct: "distinct dataclass_fields"
  by (simp add: dataclass_fields_def)

text \<open>The parameters of the constructor are the declared names, in order.\<close>

lemma init_params_names:
  "init_params = map (\<lambda>f. field_name (field_decl f)) dataclass_fields"
  by (simp add: init_params_def dataclass_fields_def)

lemma field_name_inj:
  "field_name (field_decl f) = field_name (field_decl f') \<Longrightarrow> f = f'"
  by (cases f; cases f'; simp)

lemma field_name_param: "field_name (field_decl f) \<in> set init_params"
  unfolding init_params_names using dataclass_fields_complete by simp

lemma field_default_None: "field_default (field_decl f) = PyNone"
  by (cases f) simp_all

lemma xml_role_cases:
  "xml_role g f =
     (if f \<in> {F_format, F_entity, F_reset_to} then Some ''Element'' else Some ''Attribute'')"
  by (cases f) (simp_all add: xml_role_def)

lemma kind_of_nested:
  "kind_of f = Some Nested_record \<longleftrightarrow> f \<in> {F_format, F_entity, F_reset_to}"
  by (cases f) (simp_all add: kind_of_def annotation_kind_def)

lemma is_scalar_iff: "is_scalar f \<longleftrightarrow> f \<notin> {F_format, F_entity, F_reset_to}"
  by (cases f) (simp_all add: is_scalar_def kind_of_def annotation_kind_def)

lemma scalar_fields_list:
  "filter is_scalar dataclass_fields = butlast (butlast (butlast dataclass_fields))"
  unfolding dataclass_fields_def by (simp add: is_scalar_iff)

lemma nested_fields_list:
  "filter (\<lambda>f. kind_of f = Some Nested_record) dataclass_fields =
     [F_format, F_entity, F_reset_to]"
  unfolding dataclass_fields_def by (simp add: kind_of_nested)

subsection \<open>Reading and assigning\<close>

lemma getattr_setattr_same: "getattr (setattr s f v) f = v"
  by (cases f) simp_all

lemma getattr_setattr_other: "f' \<noteq> f \<Longrightarrow> getattr (setattr s f v) f' = getattr s f'"
  by (cases f; cases f'; simp)

lemma astuple_getattr: "astuple s = map (getattr s) dataclass_fields"
  by (simp add: astuple_def dataclass_fields_def)

subsection \<open>The constructor\<close>

lemma init_positional: "args \<noteq> [] \<Longrightarrow> XmileSlider_init args kwargs = Inl TypeError"
  by (simp add: XmileSlider_init_def)

lemma init_unknown_keyword:
  "k \<notin> set init_params \<Longrightarrow> XmileSlider_init args ((k, v) # kwargs) = Inl TypeError"
  by (simp add: XmileSlider_init_def)

lemma init_raises_iff:
  "XmileSlider_init args kwargs = Inl TypeError \<longleftrightarrow>
     args \<noteq> [] \<or> \<not> distinct (map fst kwargs) \<or> \<not> set (map fst kwargs) \<subseteq> set init_params"
  by (auto simp: XmileSlider_init_def list_all_iff)

lemma init_ok:
  assumes "distinct (map fst kwargs)" and "set (map fst kwargs) \<subseteq> set init_params"
  shows "\<exists>s. XmileSlider_init [] kwargs = Inr s \<and>
             (\<forall>f. getattr s f = kwarg kwargs (field_name (field_decl f)))"
proof -
  have all: "list_all (\<lambda>k. k \<in> set init_params) (map fst kwargs)"
    using assms(2) by (auto simp: list_all_iff)
  then obtain s where s: "XmileSlider_init [] kwargs = Inr s"
    using assms(1) by (simp add: XmileSlider_init_def)
  have "getattr s f = kwarg kwargs (field_name (field_decl f))" for f
    using s assms(1) all by (cases f) (auto simp: XmileSlider_init_def)
  with s show ?thesis by blast
qed

text \<open>Populating a chosen list of fields: the keyword arguments name them one by one.\<close>

lemma map_of_populated:
  "map_of (map (\<lambda>f. (field_name (field_decl f), val f)) fs) (field_name (field_decl f)) =
     (if f \<in> set fs then Some (val f) else None)"
  by (induction fs) (auto dest: field_name_inj)

lemma distinct_populated:
  "distinct fs \<Longrightarrow> distinct (map fst (map (\<lambda>f. (field_name (field_decl f), val f)) fs))"
  by (simp add: distinct_map comp_def inj_on_def) (blast dest: field_name_inj)

lemma init_populated:
  assumes "distinct fs"
  shows "\<exists>s. XmileSlider_init [] (map (\<lambda>f. (field_name (field_decl f), val f)) fs) = Inr s \<and>
             (\<forall>f. getattr s f = (if f \<in> set fs then val f else PyNone))"
proof -
  let ?kw = "map (\<lambda>f. (field_name (field_decl f), val f)) fs"
  have "set (map fst ?kw) \<subseteq> set init_params"
    using field_name_param by auto
  from init_ok [OF distinct_populated [OF assms] this]
  obtain s where s: "XmileSlider_init [] ?kw = Inr s"
    and g: "\<And>f. getattr s f = kwarg ?kw (field_name (field_decl f))" by blast
  have "getattr s f = (if f \<in> set fs then val f else PyNone)" for f
    by (simp add: g kwarg_def map_of_populated)
  with s show ?thesis by blast
qed

subsection \<open>Equality\<close>

text \<open>
  The comparison of the instances, field by field: a pair of fields passes when it is
  the same object or when \<^verbatim>\<open>==\<close> holds.
\<close>

lemma tuple_eq_map:
  "tuple_eq obj_eq (map same fs) (map ga fs) (map gb fs) \<longleftrightarrow>
     (\<forall>f \<in> set fs. same f \<or> py_eq obj_eq (ga f) (gb f))"
  by (induction fs) (auto simp: rich_compare_bool_def)

lemma eq_fieldwise:
  "XmileSlider_eq obj_eq same s t \<longleftrightarrow>
     (\<forall>f. same f \<or> py_eq obj_eq (getattr s f) (getattr t f))"
  unfolding XmileSlider_eq_def astuple_getattr tuple_eq_map
  using dataclass_fields_complete by blast

lemma py_eq_refl:
  "\<not> holds_nan v \<Longrightarrow> (\<forall>p. obj_eq p p) \<Longrightarrow> py_eq obj_eq v v"
  by (cases v) (simp_all add: holds_nan_def float_eq_def)

lemma py_eq_None_left: "py_eq obj_eq PyNone v \<longleftrightarrow> v = PyNone"
  by (cases v) simp_all

lemma py_eq_None_right: "py_eq obj_eq v PyNone \<longleftrightarrow> v = PyNone"
  by (cases v) simp_all

lemma eq_self: "XmileSlider_eq obj_eq (\<lambda>f. True) s s"
  by (simp add: eq_fieldwise)

lemma eq_by_value:
  assumes "\<forall>f. same f \<longrightarrow> getattr s f = getattr t f"
    and "\<forall>f. \<not> holds_nan (getattr s f)" and "\<forall>p. obj_eq p p"
  shows "XmileSlider_eq obj_eq same s t \<longleftrightarrow>
           (\<forall>f. py_eq obj_eq (getattr s f) (getattr t f))"
proof -
  have "py_eq obj_eq (getattr s f) (getattr t f)" if "same f" for f
  proof -
    from assms(1) that have "getattr t f = getattr s f" by simp
    then show ?thesis using py_eq_refl [of "getattr s f" obj_eq] assms(2,3) by simp
  qed
  then show ?thesis unfolding eq_fieldwise by blast
qed

lemma getattr_init_min:
  "getattr (projr (XmileSlider_init [] [(''min'', v)])) f = (if f = F_min then v else PyNone)"
  by (cases f) (simp_all add: XmileSlider_init_def init_params_def kwarg_def)

lemmas float_defs = float_eq_def int_eq_float_def float_is_nan_def float_is_finite_def
  float_biased_exp_def float_fraction_def float_significand_def float_exponent_def

text \<open>
  The value equality on familiar inputs: \<^verbatim>\<open>5 == 5.0\<close>, \<^verbatim>\<open>5 != 5.5\<close>, \<^verbatim>\<open>True == 1\<close>,
  \<^verbatim>\<open>-0.0 == 0.0\<close>, and a NaN that differs from itself.
\<close>

lemma py_eq_int_float: "py_eq obj_eq (PyInt 5) (PyFloat 0x4014000000000000)"
  by (simp add: float_defs)

lemma py_eq_int_float_differ: "\<not> py_eq obj_eq (PyInt 5) (PyFloat 0x4016000000000000)"
  by (simp add: float_defs)

lemma py_eq_bool_int: "py_eq obj_eq (PyBool True) (PyInt 1)"
  by simp

lemma py_eq_zeros: "py_eq obj_eq (PyFloat 0x8000000000000000) (PyFloat 0)"
  by (simp add: float_defs)

lemma py_eq_nan: "\<not> py_eq obj_eq (PyFloat 0x7FF8000000000000) (PyFloat 0x7FF8000000000000)"
  by (simp add: float_defs)

subsection \<open>Emitted attributes and children\<close>

text \<open>
  \<^verbatim>\<open>XmileSlider(min=5, navigate_to=True, entity=e)\<close>: two attributes in declaration
  order, the vendor one under its namespace, and one child.
\<close>

lemma xml_attributes_example:
  "XmileSlider_init [] [(''min'', PyInt 5), (''navigate_to'', PyBool True), (''entity'', PyObj e)]
     = Inr s \<Longrightarrow>
   xml_attributes g s = [(Some (ISEE_NAMESPACE g), ''navigate_to'', PyBool True),
                         (None, ''min'', PyInt 5)] \<and>
   xml_children g s = [(''entity'', PyObj e)]"
  by (auto simp: XmileSlider_init_def init_params_def kwarg_def xml_attributes_def
      xml_children_def dataclass_fields_def xml_role_def xml_namespace_def)

section \<open>The claims of the specification\<close>

subsection \<open>The scalar fields and their types\<close>

text \<open>
  Claim C2 enumerates the scalar fields by type and says the record has no other. The
  enumeration misses \<^verbatim>\<open>conditional_entity\<close>, declared \<^verbatim>\<open>Optional[str]\<close> on line 41.
  With that field added to the strings the enumeration is exact: every field has an
  \<^verbatim>\<open>Optional\<close> annotation; the booleans, the numerics (a union of \<^verbatim>\<open>int\<close> and
  \<^verbatim>\<open>float\<close>) and the integers are those the specification lists; the strings are the
  nine listed and \<^verbatim>\<open>conditional_entity\<close>; and a field is scalar exactly when it is one of
  these twenty-eight.
\<close>

theorem scalar_fields_by_type:
  "(kind_of f = Some Boolean \<longleftrightarrow> f \<in> set spec_boolean_fields) \<and>
   (kind_of f = Some Numeric \<longleftrightarrow> f \<in> set spec_numeric_fields) \<and>
   (kind_of f = Some Integer \<longleftrightarrow> f \<in> set spec_integer_fields) \<and>
   (kind_of f = Some String \<longleftrightarrow> f \<in> set (F_conditional_entity # spec_string_fields)) \<and>
   (is_scalar f \<longleftrightarrow> f \<in> set (F_conditional_entity # spec_scalar_fields)) \<and>
   (\<exists>t. field_type (field_decl f) = Optional t)"
  by (cases f) (simp_all add: is_scalar_def kind_of_def annotation_kind_def
      spec_scalar_fields_def spec_boolean_fields_def spec_numeric_fields_def
      spec_integer_fields_def spec_string_fields_def)

text \<open>
  The enumeration as the specification writes it is not exhaustive:
  \<^verbatim>\<open>conditional_entity\<close> is a scalar field of the record, a string, and not in the list.
\<close>

theorem conditional_entity_not_enumerated:
  "field_type (field_decl F_conditional_entity) = Optional T_str \<and>
   is_scalar F_conditional_entity \<and>
   F_conditional_entity \<notin> set spec_scalar_fields"
  by (simp add: is_scalar_def kind_of_def annotation_kind_def spec_scalar_fields_def
      spec_boolean_fields_def spec_numeric_fields_def spec_integer_fields_def
      spec_string_fields_def)

subsection \<open>Namespace tags\<close>

text \<open>
  Claim C3: the fields whose metadata carries a namespace are exactly
  \<^verbatim>\<open>always_show_hover_tip\<close>, \<^verbatim>\<open>show_hover_tip\<close>, \<^verbatim>\<open>conditional_entity\<close>,
  \<^verbatim>\<open>fancy_appearance\<close> and \<^verbatim>\<open>navigate_to\<close>; their tag is \<^verbatim>\<open>xmile_globals.ISEE_NAMESPACE\<close>;
  every other field has no namespace entry. The tag is part of the declaration of the
  field, whatever the instance.
\<close>

theorem vendor_namespace_fields:
  "xml_namespace g f =
     (if f \<in> {F_always_show_hover_tip, F_show_hover_tip, F_conditional_entity,
               F_fancy_appearance, F_navigate_to}
      then Some (ISEE_NAMESPACE g) else None) \<and>
   filter (\<lambda>f. xml_namespace g f \<noteq> None) dataclass_fields =
     [F_conditional_entity, F_always_show_hover_tip, F_show_hover_tip,
      F_fancy_appearance, F_navigate_to]"
proof
  show "xml_namespace g f =
     (if f \<in> {F_always_show_hover_tip, F_show_hover_tip, F_conditional_entity,
               F_fancy_appearance, F_navigate_to}
      then Some (ISEE_NAMESPACE g) else None)"
    by (cases f) (simp_all add: xml_namespace_def)
  show "filter (\<lambda>f. xml_namespace g f \<noteq> None) dataclass_fields =
     [F_conditional_entity, F_always_show_hover_tip, F_show_hover_tip,
      F_fancy_appearance, F_navigate_to]"
    by (simp add: dataclass_fields_def xml_namespace_def)
qed

text \<open>With the ISEE namespace of XMILE files: \<^verbatim>\<open>navigate_to\<close> is tagged, \<^verbatim>\<open>min\<close> is not.\<close>

theorem vendor_namespace_fields_witness:
  "xml_namespace \<lparr>XMILE_NAMESPACE = NAMESPACE, ISEE_NAMESPACE = ''http://iseesystems.com/XMILE''\<rparr>
     F_navigate_to = Some ''http://iseesystems.com/XMILE'' \<and>
   xml_namespace \<lparr>XMILE_NAMESPACE = NAMESPACE, ISEE_NAMESPACE = ''http://iseesystems.com/XMILE''\<rparr>
     F_min = None"
  using vendor_namespace_fields
    [of "\<lparr>XMILE_NAMESPACE = NAMESPACE, ISEE_NAMESPACE = ''http://iseesystems.com/XMILE''\<rparr>"
        F_navigate_to]
    vendor_namespace_fields
    [of "\<lparr>XMILE_NAMESPACE = NAMESPACE, ISEE_NAMESPACE = ''http://iseesystems.com/XMILE''\<rparr>"
        F_min]
  by simp

subsection \<open>XML roles\<close>

text \<open>
  Claim C4: the metadata of every field has exactly one \<^verbatim>\<open>type\<close> entry, and it is
  \<^verbatim>\<open>Attribute\<close> or \<^verbatim>\<open>Element\<close>. The Element fields are exactly \<^verbatim>\<open>format\<close>, \<^verbatim>\<open>entity\<close>
  and \<^verbatim>\<open>reset_to\<close>, which are the nested records; the Attribute fields are exactly the
  scalar fields. The three nested records are optional one by one: the constructor
  takes any three values for them, \<^verbatim>\<open>None\<close> or not, and the instance holds each as given.
\<close>

theorem xml_roles:
  "xml_role g f =
     (if f \<in> {F_format, F_entity, F_reset_to} then Some ''Element'' else Some ''Attribute'') \<and>
   length (filter (\<lambda>kv. fst kv = ''type'') (field_metadata (field_decl f) g)) = 1 \<and>
   (is_scalar f \<longleftrightarrow> xml_role g f = Some ''Attribute'') \<and>
   (kind_of f = Some Nested_record \<longleftrightarrow> xml_role g f = Some ''Element'') \<and>
   (\<exists>s. XmileSlider_init [] [(''format'', a), (''entity'', b), (''reset_to'', c)] = Inr s \<and>
        getattr s F_format = a \<and> getattr s F_entity = b \<and> getattr s F_reset_to = c)"
proof -
  have 1: "length (filter (\<lambda>kv. fst kv = ''type'') (field_metadata (field_decl f) g)) = 1"
    by (cases f) simp_all
  have 2: "\<exists>s. XmileSlider_init [] [(''format'', a), (''entity'', b), (''reset_to'', c)] = Inr s \<and>
        getattr s F_format = a \<and> getattr s F_entity = b \<and> getattr s F_reset_to = c"
  proof -
    let ?val = "\<lambda>f. if f = F_format then a else if f = F_entity then b else c"
    have d: "distinct [F_format, F_entity, F_reset_to]" by simp
    have kw: "map (\<lambda>f. (field_name (field_decl f), ?val f)) [F_format, F_entity, F_reset_to]
                = [(''format'', a), (''entity'', b), (''reset_to'', c)]" by simp
    from init_populated [OF d, of ?val]
    obtain s where s: "XmileSlider_init [] [(''format'', a), (''entity'', b), (''reset_to'', c)] = Inr s"
      and g: "\<And>f. getattr s f = (if f \<in> set [F_format, F_entity, F_reset_to] then ?val f else PyNone)"
      unfolding kw by blast
    have "getattr s F_format = a" "getattr s F_entity = b" "getattr s F_reset_to = c"
      unfolding g by simp_all
    with s show ?thesis by blast
  qed
  show ?thesis
    using 1 2 by (simp add: xml_role_cases is_scalar_iff kind_of_nested)
qed

text \<open>\<^verbatim>\<open>XmileSlider(entity=e)\<close> with the other two nested records left unset.\<close>

theorem xml_roles_witness:
  "xml_role \<lparr>XMILE_NAMESPACE = NAMESPACE, ISEE_NAMESPACE = ''http://iseesystems.com/XMILE''\<rparr>
     F_entity = Some ''Element'' \<and>
   (\<exists>s. XmileSlider_init []
          [(''format'', PyNone),
           (''entity'', PyObj (Instance ''XmileEntity'' [(''name'', PyStr ''Population'')])),
           (''reset_to'', PyNone)] = Inr s \<and>
        getattr s F_format = PyNone \<and>
        getattr s F_entity = PyObj (Instance ''XmileEntity'' [(''name'', PyStr ''Population'')]) \<and>
        getattr s F_reset_to = PyNone)"
  using xml_roles
    [of "\<lparr>XMILE_NAMESPACE = NAMESPACE, ISEE_NAMESPACE = ''http://iseesystems.com/XMILE''\<rparr>"
        F_entity PyNone
        "PyObj (Instance ''XmileEntity'' [(''name'', PyStr ''Population'')])" PyNone]
  by simp

subsection \<open>The class-level constants\<close>

text \<open>
  Claim C5: the tag name and the primary namespace belong to the class, not to an
  instance. \<^verbatim>\<open>Meta.name\<close> is \<^verbatim>\<open>slider\<close>, \<^verbatim>\<open>Meta.namespace\<close> is
  \<^verbatim>\<open>xmile_globals.XMILE_NAMESPACE\<close>, and the module constant \<^verbatim>\<open>__NAMESPACE__\<close> is the URI
  of XMILE version 1.0. None of them is a parameter of the constructor: a call that
  passes \<^verbatim>\<open>Meta\<close>, \<^verbatim>\<open>name\<close> or \<^verbatim>\<open>namespace\<close> raises \<^verbatim>\<open>TypeError\<close>.
\<close>

theorem meta_constants:
  "name (XmileSlider_Meta g) = ''slider'' \<and>
   namespace (XmileSlider_Meta g) = XMILE_NAMESPACE g \<and>
   NAMESPACE = ''http://docs.oasis-open.org/xmile/ns/XMILE/v1.0'' \<and>
   XmileSlider_init args ((''Meta'', v) # kwargs) = Inl TypeError \<and>
   XmileSlider_init args ((''name'', v) # kwargs) = Inl TypeError \<and>
   XmileSlider_init args ((''namespace'', v) # kwargs) = Inl TypeError"
  by (simp add: XmileSlider_Meta_def NAMESPACE_def init_unknown_keyword init_params_def)

subsection \<open>Construction\<close>

text \<open>
  Claim C6: the call with no argument succeeds and leaves every field \<^verbatim>\<open>None\<close>; that
  instance has no attribute and no child to emit under the tag \<^verbatim>\<open>slider\<close>. Any list
  of distinct fields can be populated at construction, with any values: the call
  succeeds, the chosen fields hold their values and all others are \<^verbatim>\<open>None\<close>.
\<close>

theorem init_defaults:
  "(\<exists>s. XmileSlider_init [] [] = Inr s \<and> (\<forall>f. getattr s f = PyNone) \<and>
        name (XmileSlider_Meta g) = ''slider'' \<and>
        xml_attributes g s = [] \<and> xml_children g s = []) \<and>
   (distinct fs \<longrightarrow>
     (\<exists>s. XmileSlider_init [] (map (\<lambda>f. (field_name (field_decl f), val f)) fs) = Inr s \<and>
          (\<forall>f. getattr s f = (if f \<in> set fs then val f else PyNone))))"
proof -
  have d: "distinct ([] :: slider_field list)" by simp
  from init_populated [OF d, of val]
  obtain s where s: "XmileSlider_init [] [] = Inr s" and g: "\<forall>f. getattr s f = PyNone"
    by auto
  have "xml_attributes g s = []" "xml_children g s = []"
    by (simp_all add: xml_attributes_def xml_children_def g)
  moreover have "name (XmileSlider_Meta g) = ''slider''"
    by (simp add: XmileSlider_Meta_def)
  ultimately have first: "\<exists>s. XmileSlider_init [] [] = Inr s \<and> (\<forall>f. getattr s f = PyNone) \<and>
        name (XmileSlider_Meta g) = ''slider'' \<and>
        xml_attributes g s = [] \<and> xml_children g s = []"
    using s g by (intro exI [of _ s] conjI)
  have second: "distinct fs \<longrightarrow>
     (\<exists>s. XmileSlider_init [] (map (\<lambda>f. (field_name (field_decl f), val f)) fs) = Inr s \<and>
          (\<forall>f. getattr s f = (if f \<in> set fs then val f else PyNone)))"
    by (rule impI) (rule init_populated)
  from first second show ?thesis by (rule conjI)
qed

text \<open>\<^verbatim>\<open>XmileSlider(min=5, title="Rate")\<close> holds the two values and nothing else.\<close>

theorem init_defaults_witness:
  "distinct [F_min, F_title] \<and>
   (\<exists>s. XmileSlider_init [] [(''min'', PyInt 5), (''title'', PyStr ''Rate'')] = Inr s \<and>
        getattr s F_min = PyInt 5 \<and> getattr s F_title = PyStr ''Rate'' \<and>
        getattr s F_max = PyNone \<and> getattr s F_entity = PyNone) \<and>
   (\<exists>s. XmileSlider_init [] [] = Inr s \<and>
        xml_attributes \<lparr>XMILE_NAMESPACE = NAMESPACE, ISEE_NAMESPACE = ''http://iseesystems.com/XMILE''\<rparr> s = [])"
proof -
  let ?G = "\<lparr>XMILE_NAMESPACE = NAMESPACE, ISEE_NAMESPACE = ''http://iseesystems.com/XMILE''\<rparr>"
  let ?val = "\<lambda>f. if f = F_min then PyInt 5 else PyStr ''Rate''"
  note inst = init_defaults [of ?G "[F_min, F_title]" ?val]
  have d: "distinct [F_min, F_title]" by simp
  have kw: "map (\<lambda>f. (field_name (field_decl f), ?val f)) [F_min, F_title]
              = [(''min'', PyInt 5), (''title'', PyStr ''Rate'')]" by simp
  from inst d
  obtain s where s: "XmileSlider_init [] [(''min'', PyInt 5), (''title'', PyStr ''Rate'')] = Inr s"
    and g: "\<And>f. getattr s f = (if f \<in> set [F_min, F_title] then ?val f else PyNone)"
    unfolding kw by blast
  have "getattr s F_min = PyInt 5" "getattr s F_title = PyStr ''Rate''"
    "getattr s F_max = PyNone" "getattr s F_entity = PyNone"
    unfolding g by simp_all
  with s have populated:
    "\<exists>s. XmileSlider_init [] [(''min'', PyInt 5), (''title'', PyStr ''Rate'')] = Inr s \<and>
        getattr s F_min = PyInt 5 \<and> getattr s F_title = PyStr ''Rate'' \<and>
        getattr s F_max = PyNone \<and> getattr s F_entity = PyNone"
    by blast
  from inst have bare: "\<exists>s. XmileSlider_init [] [] = Inr s \<and> xml_attributes ?G s = []"
    by blast
  from d populated bare show ?thesis by (intro conjI)
qed

subsection \<open>No validation\<close>

text \<open>
  Claim C8 says that no operation of the class ever raises. The constructor does: it
  is keyword-only, and Python raises \<^verbatim>\<open>TypeError\<close> for a positional argument, for a
  keyword that is not a declared field and for a keyword given twice. These are the
  only failures, and none depends on a value. As amended: a call raises
  \<^verbatim>\<open>TypeError\<close> exactly in those three cases; every other call succeeds for any values,
  each field holding the value passed for it or \<^verbatim>\<open>None\<close>; and assigning any value to
  any field stores that value, whatever the annotation of the field. Reading and
  assigning have no failing branch.
\<close>

theorem no_validation_of_values:
  "(XmileSlider_init args kwargs = Inl TypeError \<longleftrightarrow>
      args \<noteq> [] \<or> \<not> distinct (map fst kwargs) \<or> \<not> set (map fst kwargs) \<subseteq> set init_params) \<and>
   (args = [] \<and> distinct (map fst kwargs) \<and> set (map fst kwargs) \<subseteq> set init_params \<longrightarrow>
     (\<exists>s. XmileSlider_init args kwargs = Inr s \<and>
          (\<forall>f. getattr s f = kwarg kwargs (field_name (field_decl f))))) \<and>
   getattr (setattr t f v) f = v"
proof (intro conjI impI)
  show "XmileSlider_init args kwargs = Inl TypeError \<longleftrightarrow>
      args \<noteq> [] \<or> \<not> distinct (map fst kwargs) \<or> \<not> set (map fst kwargs) \<subseteq> set init_params"
    by (rule init_raises_iff)
next
  assume a: "args = [] \<and> distinct (map fst kwargs) \<and> set (map fst kwargs) \<subseteq> set init_params"
  then have "\<exists>s. XmileSlider_init [] kwargs = Inr s \<and>
          (\<forall>f. getattr s f = kwarg kwargs (field_name (field_decl f)))"
    using init_ok [of kwargs] by simp
  with a show "\<exists>s. XmileSlider_init args kwargs = Inr s \<and>
          (\<forall>f. getattr s f = kwarg kwargs (field_name (field_decl f)))"
    by simp
next
  show "getattr (setattr t f v) f = v" by (rule getattr_setattr_same)
qed

text \<open>
  A string for the numeric \<^verbatim>\<open>min\<close>, an integer for the boolean \<^verbatim>\<open>vertical\<close> and a
  string for the integer \<^verbatim>\<open>uid\<close> are all accepted and kept; a positional argument
  is refused.
\<close>

theorem no_validation_of_values_witness:
  "(\<exists>s. XmileSlider_init [] [(''min'', PyStr ''abc''), (''vertical'', PyInt 7)] = Inr s \<and>
        getattr s F_min = PyStr ''abc'' \<and> getattr s F_vertical = PyInt 7 \<and>
        getattr s F_max = PyNone \<and>
        getattr (setattr s F_uid (PyStr ''seven'')) F_uid = PyStr ''seven'') \<and>
   XmileSlider_init [PyInt 5] [(''min'', PyInt 5)] = Inl TypeError"
proof -
  let ?kw = "[(''min'', PyStr ''abc''), (''vertical'', PyInt 7)]"
  have d: "distinct (map fst ?kw)" by simp
  have p: "set (map fst ?kw) \<subseteq> set init_params" by (simp add: init_params_def)
  from no_validation_of_values [of "[]" ?kw] d p
  obtain s where s: "XmileSlider_init [] ?kw = Inr s"
    and g: "\<And>f. getattr s f = kwarg ?kw (field_name (field_decl f))"
    by blast
  have "getattr s F_min = PyStr ''abc''" "getattr s F_vertical = PyInt 7"
    "getattr s F_max = PyNone"
    unfolding g by (simp_all add: kwarg_def)
  moreover have "getattr (setattr s F_uid (PyStr ''seven'')) F_uid = PyStr ''seven''"
    using no_validation_of_values [of "[]" "[]" s F_uid "PyStr ''seven''"] by simp
  ultimately have first:
    "\<exists>s. XmileSlider_init [] ?kw = Inr s \<and>
        getattr s F_min = PyStr ''abc'' \<and> getattr s F_vertical = PyInt 7 \<and>
        getattr s F_max = PyNone \<and>
        getattr (setattr s F_uid (PyStr ''seven'')) F_uid = PyStr ''seven''"
    using s by blast
  have second: "XmileSlider_init [PyInt 5] [(''min'', PyInt 5)] = Inl TypeError"
    using no_validation_of_values [of "[PyInt 5]" "[(''min'', PyInt 5)]"] by simp
  from first second show ?thesis by (rule conjI)
qed

text \<open>
  The claim as worded fails on \<^verbatim>\<open>XmileSlider(5)\<close>, on \<^verbatim>\<open>XmileSlider(bogus=1)\<close> and
  on a call that gives \<^verbatim>\<open>min\<close> twice.
\<close>

theorem init_raises_TypeError:
  "XmileSlider_init [PyInt 5] [] = Inl TypeError \<and>
   XmileSlider_init [] [(''bogus'', PyInt 1)] = Inl TypeError \<and>
   XmileSlider_init [] [(''min'', PyInt 1), (''min'', PyInt 2)] = Inl TypeError"
  by (simp add: XmileSlider_init_def init_params_def)

subsection \<open>Independence of the fields\<close>

text \<open>
  Claim C9: assigning one field changes that field only. After \<^verbatim>\<open>s.f = v\<close> the
  field \<open>f\<close> reads \<open>v\<close> and every other field reads what it read before; and the only
  default a declaration gives is \<^verbatim>\<open>None\<close>.
\<close>

theorem fields_independent:
  "getattr (setattr s f v) f = v \<and>
   (\<forall>f'. f' \<noteq> f \<longrightarrow> getattr (setattr s f v) f' = getattr s f') \<and>
   field_default (field_decl f) = PyNone"
  by (simp add: getattr_setattr_same getattr_setattr_other field_default_None)

text \<open>On \<^verbatim>\<open>XmileSlider(min=5)\<close>, assigning \<^verbatim>\<open>max = 9\<close> leaves \<^verbatim>\<open>min\<close> at 5.\<close>

theorem fields_independent_witness:
  "F_min \<noteq> F_max \<and>
   getattr (setattr (projr (XmileSlider_init [] [(''min'', PyInt 5)])) F_max (PyInt 9)) F_min
     = PyInt 5 \<and>
   getattr (setattr (projr (XmileSlider_init [] [(''min'', PyInt 5)])) F_max (PyInt 9)) F_max
     = PyInt 9"
proof -
  have m: "getattr (projr (XmileSlider_init [] [(''min'', PyInt 5)])) F_min = PyInt 5"
    by (simp add: XmileSlider_init_def init_params_def kwarg_def)
  have n: "F_min \<noteq> F_max" by simp
  from fields_independent [of "projr (XmileSlider_init [] [(''min'', PyInt 5)])" F_max "PyInt 9"] m n
  show ?thesis by metis
qed

subsection \<open>Structural equality\<close>

text \<open>
  Claim C10 says that two instances are equal exactly when every field of the one
  equals the same field of the other. With \<^verbatim>\<open>==\<close> for the fields this fails where
  a field holds a NaN: the tuple comparison never asks \<^verbatim>\<open>==\<close> of a component that is
  the same object on both sides. As amended: two instances are equal exactly when,
  for each of the thirty-one fields (twenty-eight scalar, three nested), the two
  values are the same object or equal by \<^verbatim>\<open>==\<close>; an instance equals itself; where no
  field holds a NaN and the equality of the nested objects is reflexive, the instances
  are equal exactly when every pair of fields is equal by \<^verbatim>\<open>==\<close>. \<^verbatim>\<open>None\<close> equals
  \<^verbatim>\<open>None\<close> and nothing else, and booleans, integers, strings and objects are compared
  by their values.
\<close>

theorem eq_by_identity_or_value:
  "(XmileSlider_eq obj_eq same s t \<longleftrightarrow>
      (\<forall>f. same f \<or> py_eq obj_eq (getattr s f) (getattr t f))) \<and>
   XmileSlider_eq obj_eq (\<lambda>f. True) s s \<and>
   ((\<forall>f. same f \<longrightarrow> getattr s f = getattr t f) \<and> (\<forall>f. \<not> holds_nan (getattr s f)) \<and>
    (\<forall>p. obj_eq p p) \<longrightarrow>
      (XmileSlider_eq obj_eq same s t \<longleftrightarrow>
         (\<forall>f. py_eq obj_eq (getattr s f) (getattr t f)))) \<and>
   (py_eq obj_eq PyNone v \<longleftrightarrow> v = PyNone) \<and>
   (py_eq obj_eq v PyNone \<longleftrightarrow> v = PyNone) \<and>
   (py_eq obj_eq (PyBool a) (PyBool b) \<longleftrightarrow> a = b) \<and>
   (py_eq obj_eq (PyInt i) (PyInt j) \<longleftrightarrow> i = j) \<and>
   (py_eq obj_eq (PyStr c) (PyStr d) \<longleftrightarrow> c = d) \<and>
   (py_eq obj_eq (PyObj p) (PyObj q) \<longleftrightarrow> obj_eq p q) \<and>
   length (filter is_scalar dataclass_fields) = 28 \<and>
   length (filter (\<lambda>f. kind_of f = Some Nested_record) dataclass_fields) = 3 \<and>
   length dataclass_fields = 31"
proof (intro conjI)
  show "XmileSlider_eq obj_eq same s t \<longleftrightarrow>
      (\<forall>f. same f \<or> py_eq obj_eq (getattr s f) (getattr t f))"
    by (rule eq_fieldwise)
  show "XmileSlider_eq obj_eq (\<lambda>f. True) s s" by (rule eq_self)
  show "(\<forall>f. same f \<longrightarrow> getattr s f = getattr t f) \<and> (\<forall>f. \<not> holds_nan (getattr s f)) \<and>
    (\<forall>p. obj_eq p p) \<longrightarrow>
      (XmileSlider_eq obj_eq same s t \<longleftrightarrow>
         (\<forall>f. py_eq obj_eq (getattr s f) (getattr t f)))"
    using eq_by_value [of same s t obj_eq] by blast
  show "py_eq obj_eq PyNone v \<longleftrightarrow> v = PyNone" by (rule py_eq_None_left)
  show "py_eq obj_eq v PyNone \<longleftrightarrow> v = PyNone" by (rule py_eq_None_right)
  show "py_eq obj_eq (PyBool a) (PyBool b) \<longleftrightarrow> a = b" by simp
  show "py_eq obj_eq (PyInt i) (PyInt j) \<longleftrightarrow> i = j" by simp
  show "py_eq obj_eq (PyStr c) (PyStr d) \<longleftrightarrow> c = d" by simp
  show "py_eq obj_eq (PyObj p) (PyObj q) \<longleftrightarrow> obj_eq p q" by simp
  show "length (filter is_scalar dataclass_fields) = 28"
    unfolding scalar_fields_list by (simp add: dataclass_fields_def)
  show "length (filter (\<lambda>f. kind_of f = Some Nested_record) dataclass_fields) = 3"
    unfolding nested_fields_list by simp
  show "length dataclass_fields = 31"
    by (simp add: dataclass_fields_def)
qed

text \<open>
  \<^verbatim>\<open>XmileSlider(min=5)\<close> equals \<^verbatim>\<open>XmileSlider(min=5.0)\<close>, field by field, and differs
  from \<^verbatim>\<open>XmileSlider(min=6)\<close> and from \<^verbatim>\<open>XmileSlider()\<close>. The unset fields share the
  object \<^verbatim>\<open>None\<close>; the two values of \<^verbatim>\<open>min\<close> are different objects.
\<close>

theorem eq_by_identity_or_value_witness:
  "XmileSlider_eq (=) (\<lambda>f. f \<noteq> F_min)
     (projr (XmileSlider_init [] [(''min'', PyInt 5)]))
     (projr (XmileSlider_init [] [(''min'', PyFloat 0x4014000000000000)])) \<and>
   (\<forall>f. py_eq (=) (getattr (projr (XmileSlider_init [] [(''min'', PyInt 5)])) f)
                  (getattr (projr (XmileSlider_init [] [(''min'', PyFloat 0x4014000000000000)])) f)) \<and>
   \<not> XmileSlider_eq (=) (\<lambda>f. f \<noteq> F_min)
     (projr (XmileSlider_init [] [(''min'', PyInt 5)]))
     (projr (XmileSlider_init [] [(''min'', PyInt 6)])) \<and>
   \<not> XmileSlider_eq (=) (\<lambda>f. f \<noteq> F_min)
     (projr (XmileSlider_init [] [(''min'', PyInt 5)]))
     (projr (XmileSlider_init [] [(''min'', PyNone)]))"
proof -
  let ?same = "\<lambda>f. f \<noteq> F_min"
  let ?s = "projr (XmileSlider_init [] [(''min'', PyInt 5)])"
  let ?t = "projr (XmileSlider_init [] [(''min'', PyFloat 0x4014000000000000)])"
  let ?u = "projr (XmileSlider_init [] [(''min'', PyInt 6)])"
  let ?n = "projr (XmileSlider_init [] [(''min'', PyNone)])"
  note thm_st = eq_by_identity_or_value [of "(=)" ?same ?s ?t]
  have shared: "\<forall>f. ?same f \<longrightarrow> getattr ?s f = getattr ?t f"
    by (simp add: getattr_init_min)
  have no_nan: "\<forall>f. \<not> holds_nan (getattr ?s f)"
    by (simp add: getattr_init_min holds_nan_def)
  have refl: "\<forall>p::pyobject. p = p" by simp
  have five: "py_eq (=) (PyInt 5) (PyFloat 0x4014000000000000)"
    by (rule py_eq_int_float)
  have st: "XmileSlider_eq (=) ?same ?s ?t"
    using thm_st five by (simp add: getattr_init_min)
  with thm_st shared no_nan refl
  have fields: "\<forall>f. py_eq (=) (getattr ?s f) (getattr ?t f)" by blast
  have su: "\<not> XmileSlider_eq (=) ?same ?s ?u"
    using eq_by_identity_or_value [of "(=)" ?same ?s ?u] by (simp add: getattr_init_min)
  have sn: "\<not> XmileSlider_eq (=) ?same ?s ?n"
    using eq_by_identity_or_value [of "(=)" ?same ?s ?n] by (simp add: getattr_init_min)
  from st fields su sn show ?thesis by (intro conjI)
qed

text \<open>
  The claim as worded fails on \<^verbatim>\<open>s = XmileSlider(x=float("nan"))\<close>: \<^verbatim>\<open>s == s\<close> holds
  and \<^verbatim>\<open>s.x == s.x\<close> does not.
\<close>

theorem nan_field_self_equal:
  "XmileSlider_eq (=) (\<lambda>f. True)
     (projr (XmileSlider_init [] [(''x'', PyFloat 0x7FF8000000000000)]))
     (projr (XmileSlider_init [] [(''x'', PyFloat 0x7FF8000000000000)])) \<and>
   getattr (projr (XmileSlider_init [] [(''x'', PyFloat 0x7FF8000000000000)])) F_x
     = PyFloat 0x7FF8000000000000 \<and>
   \<not> py_eq (=) (getattr (projr (XmileSlider_init [] [(''x'', PyFloat 0x7FF8000000000000)])) F_x)
               (getattr (projr (XmileSlider_init [] [(''x'', PyFloat 0x7FF8000000000000)])) F_x)"
proof -
  let ?s = "projr (XmileSlider_init [] [(''x'', PyFloat 0x7FF8000000000000)])"
  have x: "getattr ?s F_x = PyFloat 0x7FF8000000000000"
    by (simp add: XmileSlider_init_def init_params_def kwarg_def)
  have "XmileSlider_eq (=) (\<lambda>f. True) ?s ?s" by (rule eq_self)
  moreover have "\<not> py_eq (=) (getattr ?s F_x) (getattr ?s F_x)"
    unfolding x by (rule py_eq_nan)
  ultimately show ?thesis using x by (intro conjI)
qed

end
